theory Spec2Isabelle
  imports Complex_Main
begin

section \<open>The adjusted Sharpe metric of \<open>src/metric.py\<close>\<close>

text \<open>
  The theory embeds \<open>compute_adjusted_sharpe\<close> (metric.py, lines 45 to 164). Python
  floats are idealised as real numbers: rounding, infinities and NaN cells in the two
  return columns are outside the model, except for the standard deviation, which is
  also modelled in binary64 (\<open>float_std\<close>). The places where pandas yields NaN on an
  empty column (\<open>max\<close>, \<open>min\<close>) are written out, because there the comparison of the
  source is false.
\<close>

subsection \<open>Errors\<close>

text \<open>
  Every check of the source raises \<open>ValueError\<close> with its own message; the constructors
  name the message. \<open>ZeroDivisionError\<close> is what Python raises for \<open>1 / n\<close> with
  \<open>n = 0\<close> (lines 102 and 131).
\<close>

datatype error =
    MissingPredictionError      \<comment> \<open>"Missing predictions for some rows after merge"\<close>
  | InvalidPredictionTypeError  \<comment> \<open>"Predictions must be numeric"\<close>
  | OutOfBoundsError            \<comment> \<open>"Predictions out of bounds [0,2]"\<close>
  | StrategyStdZero             \<comment> \<open>"strategy std is zero"\<close>
  | MarketStdZero               \<comment> \<open>"market std is zero"\<close>
  | ZeroDivisionError

definition is_ZeroVolatilityError :: "error \<Rightarrow> bool" where
  "is_ZeroVolatilityError e = (e = StrategyStdZero \<or> e = MarketStdZero)"

subsection \<open>Data frames\<close>

text \<open>
  A cell of the prediction column: a number, a null (NaN or None, what \<open>isnull\<close>
  reports), or any other object (a string, say), which only a column of non-numeric
  dtype can hold.
\<close>

datatype cell = Num real | Null | Obj

record 'id actual_row =
  row_id :: 'id
  forward_returns :: real
  risk_free_rate :: real

record 'id joined_row = "'id actual_row" +
  prediction :: cell

text \<open>
  The submission frame: its rows (identifier, prediction) and whether the dtype of its
  prediction column is a numpy number type. A left merge keeps that property: a
  numeric column stays numeric when NaN is filled in, any other column stays
  non-numeric. In a pandas frame a column of numeric dtype holds no \<open>Obj\<close> cell.
\<close>

record 'id submission =
  number_dtype :: bool
  sub_rows :: "('id \<times> cell) list"

subsection \<open>Line 54: the left merge\<close>

definition matches :: "'id \<Rightarrow> ('id \<times> cell) list \<Rightarrow> cell list" where
  "matches k rs = map snd (filter (\<lambda>p. fst p = k) rs)"

definition join_row :: "'id actual_row \<Rightarrow> cell \<Rightarrow> 'id joined_row" where
  "join_row a c = \<lparr>row_id = row_id a, forward_returns = forward_returns a,
     risk_free_rate = risk_free_rate a, prediction = c\<rparr>"

text \<open>
  \<open>solution.merge(submission, on=row_id_col, how='left')\<close>: every solution row, in
  order, once for each submission row with the same identifier, and once with a null
  prediction when there is none.
\<close>

definition merge_row :: "('id \<times> cell) list \<Rightarrow> 'id actual_row \<Rightarrow> 'id joined_row list" where
  "merge_row rs a =
     (case matches (row_id a) rs of [] \<Rightarrow> [join_row a Null] | c # cs \<Rightarrow> map (join_row a) (c # cs))"

definition merge_left :: "'id actual_row list \<Rightarrow> ('id \<times> cell) list \<Rightarrow> 'id joined_row list" where
  "merge_left solution rs = concat (map (merge_row rs) solution)"

subsection \<open>Lines 57 to 67: validation of the prediction column\<close>

definition any_null :: "'id joined_row list \<Rightarrow> bool" where
  "any_null df = (\<exists>r \<in> set df. prediction r = Null)"

text \<open>
  The value of a prediction cell as a float. Null and Obj cells never get here in a
  pandas frame: the null check and the dtype check have raised before.
\<close>

fun num :: "cell \<Rightarrow> real" where
  "num (Num x) = x"
| "num Null = 0"
| "num Obj = 0"

definition position :: "'id joined_row \<Rightarrow> real" where
  "position r = num (prediction r)"

text \<open>\<open>Series.max()\<close> and \<open>Series.min()\<close>: NaN (here None) on an empty column.\<close>

definition series_max :: "real list \<Rightarrow> real option" where
  "series_max xs = (if xs = [] then None else Some (Max (set xs)))"

definition series_min :: "real list \<Rightarrow> real option" where
  "series_min xs = (if xs = [] then None else Some (Min (set xs)))"

text \<open>Comparisons with NaN are false.\<close>

definition nan_gt :: "real option \<Rightarrow> real \<Rightarrow> bool" where
  "nan_gt m b = (case m of None \<Rightarrow> False | Some v \<Rightarrow> b < v)"

definition nan_lt :: "real option \<Rightarrow> real \<Rightarrow> bool" where
  "nan_lt m b = (case m of None \<Rightarrow> False | Some v \<Rightarrow> v < b)"

definition out_of_bounds :: "'id joined_row list \<Rightarrow> bool" where
  "out_of_bounds df =
     (nan_gt (series_max (map position df)) 2 \<or> nan_lt (series_min (map position df)) 0)"

subsection \<open>Lines 78 to 82: strategy returns\<close>

definition strategy_return :: "'id joined_row \<Rightarrow> real" where
  "strategy_return r =
     risk_free_rate r * (1 - position r) + position r * forward_returns r"

definition strategy_returns :: "'id joined_row list \<Rightarrow> real list" where
  "strategy_returns df = map strategy_return df"

subsection \<open>Lines 89 to 137: mean excess return and volatility\<close>

definition strategy_excess :: "'id joined_row list \<Rightarrow> real list" where
  "strategy_excess df = map (\<lambda>r. strategy_return r - risk_free_rate r) df"

definition market_excess :: "'id joined_row list \<Rightarrow> real list" where
  "market_excess df = map (\<lambda>r. forward_returns r - risk_free_rate r) df"

definition excess_cum :: "real list \<Rightarrow> real" where
  "excess_cum excess = prod_list (map (\<lambda>e. 1 + e) excess)"

definition mean :: "real list \<Rightarrow> real" where
  "mean xs = sum_list xs / real (length xs)"

text \<open>
  Lines 93 to 102 for the strategy and 126 to 131 for the market are the same code.
  \<open>n\<close> is \<open>len(df)\<close>, a Python int, so \<open>1 / n\<close> raises \<open>ZeroDivisionError\<close> on an
  empty frame; the product of an empty column is 1, which sends the empty frame into
  this branch.
\<close>

definition mean_excess :: "real list \<Rightarrow> nat \<Rightarrow> error + real" where
  "mean_excess excess n =
     (let cum = excess_cum excess in
      if cum \<le> 0 then Inr (mean excess)
      else if n = 0 then Inl ZeroDivisionError
      else Inr (cum powr (1 / real n) - 1))"

text \<open>
  \<open>Series.std(ddof=0)\<close>, the population standard deviation. The source reaches it on
  non-empty frames only (on an empty column pandas gives NaN).
\<close>

definition pstd :: "real list \<Rightarrow> real" where
  "pstd xs = sqrt (sum_list (map (\<lambda>x. (x - mean xs)\<^sup>2) xs) / real (length xs))"

definition trading_days_per_yr :: real where
  "trading_days_per_yr = 252"

definition sharpe_ratio :: "real \<Rightarrow> real \<Rightarrow> real" where
  "sharpe_ratio mean_exc std = mean_exc / std * sqrt trading_days_per_yr"

definition annualized_volatility :: "real \<Rightarrow> real" where
  "annualized_volatility std = std * sqrt trading_days_per_yr * 100"

subsection \<open>Lines 148 to 164: penalties and the capped score\<close>

definition excess_vol :: "real \<Rightarrow> real \<Rightarrow> real" where
  "excess_vol strategy_volatility market_volatility =
     max 0 (strategy_volatility / market_volatility - 1.2)"

definition vol_penalty :: "real \<Rightarrow> real" where
  "vol_penalty ev = 1 + ev"

definition return_gap :: "real \<Rightarrow> real \<Rightarrow> real" where
  "return_gap market_mean_excess strategy_mean_excess =
     max 0 ((market_mean_excess - strategy_mean_excess) * 100 * trading_days_per_yr)"

definition return_penalty :: "real \<Rightarrow> real" where
  "return_penalty rg = 1 + rg\<^sup>2 / 100"

definition adjusted_sharpe :: "real \<Rightarrow> real \<Rightarrow> real \<Rightarrow> real" where
  "adjusted_sharpe sharpe vp rp = sharpe / (vp * rp)"

definition capped :: "real \<Rightarrow> real" where
  "capped a = min a 1000000"

subsection \<open>The scoring function\<close>

definition compute_adjusted_sharpe :: "'id actual_row list \<Rightarrow> 'id submission \<Rightarrow> error + real" where
  "compute_adjusted_sharpe solution submission =
     (let df = merge_left solution (sub_rows submission) in
      if any_null df then Inl MissingPredictionError
      else if \<not> number_dtype submission then Inl InvalidPredictionTypeError
      else if out_of_bounds df then Inl OutOfBoundsError
      else
        case mean_excess (strategy_excess df) (length df) of
          Inl e \<Rightarrow> Inl e
        | Inr strategy_mean_excess \<Rightarrow>
            let strategy_std = pstd (strategy_returns df) in
            if strategy_std = 0 then Inl StrategyStdZero
            else
              let sharpe = sharpe_ratio strategy_mean_excess strategy_std;
                  strategy_volatility = annualized_volatility strategy_std
              in
                case mean_excess (market_excess df) (length df) of
                  Inl e \<Rightarrow> Inl e
                | Inr market_mean_excess \<Rightarrow>
                    let market_std = pstd (map forward_returns df);
                        market_volatility = annualized_volatility market_std
                    in
                      if market_volatility = 0 then Inl MarketStdZero
                      else
                        let ev = excess_vol strategy_volatility market_volatility;
                            vp = vol_penalty ev;
                            rg = return_gap market_mean_excess strategy_mean_excess;
                            rp = return_penalty rg
                        in Inr (capped (adjusted_sharpe sharpe vp rp)))"

text \<open>
  The same function with the routine for the standard deviation of lines 108 and 133 as
  a parameter. \<open>compute_adjusted_sharpe\<close> is its instance at the exact standard
  deviation (\<open>score_with_exact_std\<close> below); its instance at \<open>float_std\<close> takes the
  standard deviation as pandas computes it in binary64.
\<close>

definition score_with_std ::
  "(real list \<Rightarrow> real) \<Rightarrow> 'id actual_row list \<Rightarrow> 'id submission \<Rightarrow> error + real" where
  "score_with_std std solution submission =
     (let df = merge_left solution (sub_rows submission) in
      if any_null df then Inl MissingPredictionError
      else if \<not> number_dtype submission then Inl InvalidPredictionTypeError
      else if out_of_bounds df then Inl OutOfBoundsError
      else
        case mean_excess (strategy_excess df) (length df) of
          Inl e \<Rightarrow> Inl e
        | Inr strategy_mean_excess \<Rightarrow>
            let strategy_std = std (strategy_returns df) in
            if strategy_std = 0 then Inl StrategyStdZero
            else
              let sharpe = sharpe_ratio strategy_mean_excess strategy_std;
                  strategy_volatility = annualized_volatility strategy_std
              in
                case mean_excess (market_excess df) (length df) of
                  Inl e \<Rightarrow> Inl e
                | Inr market_mean_excess \<Rightarrow>
                    let market_std = std (map forward_returns df);
                        market_volatility = annualized_volatility market_std
                    in
                      if market_volatility = 0 then Inl MarketStdZero
                      else
                        let ev = excess_vol strategy_volatility market_volatility;
                            vp = vol_penalty ev;
                            rg = return_gap market_mean_excess strategy_mean_excess;
                            rp = return_penalty rg
                        in Inr (capped (adjusted_sharpe sharpe vp rp)))"

subsection \<open>The local variables of the scoring function, by name\<close>

text \<open>
  The intermediate values of lines 89 to 155 as functions of the joined frame, for
  stating what the function returns. \<open>mean_excess_of\<close> is the value that
  \<open>mean_excess\<close> returns on a non-empty column.
\<close>

definition mean_excess_of :: "real list \<Rightarrow> real" where
  "mean_excess_of excess =
     (if excess_cum excess \<le> 0 then mean excess
      else excess_cum excess powr (1 / real (length excess)) - 1)"

definition strategy_mean_excess :: "'id joined_row list \<Rightarrow> real" where
  "strategy_mean_excess df = mean_excess_of (strategy_excess df)"

definition market_mean_excess :: "'id joined_row list \<Rightarrow> real" where
  "market_mean_excess df = mean_excess_of (market_excess df)"

definition strategy_std :: "'id joined_row list \<Rightarrow> real" where
  "strategy_std df = pstd (strategy_returns df)"

definition market_std :: "'id joined_row list \<Rightarrow> real" where
  "market_std df = pstd (map forward_returns df)"

definition strategy_volatility :: "'id joined_row list \<Rightarrow> real" where
  "strategy_volatility df = annualized_volatility (strategy_std df)"

definition market_volatility :: "'id joined_row list \<Rightarrow> real" where
  "market_volatility df = annualized_volatility (market_std df)"

definition strategy_sharpe :: "'id joined_row list \<Rightarrow> real" where
  "strategy_sharpe df = sharpe_ratio (strategy_mean_excess df) (strategy_std df)"

definition market_sharpe :: "'id joined_row list \<Rightarrow> real" where
  "market_sharpe df = sharpe_ratio (market_mean_excess df) (market_std df)"

definition frame_vol_penalty :: "'id joined_row list \<Rightarrow> real" where
  "frame_vol_penalty df = vol_penalty (excess_vol (strategy_volatility df) (market_volatility df))"

definition frame_return_penalty :: "'id joined_row list \<Rightarrow> real" where
  "frame_return_penalty df =
     return_penalty (return_gap (market_mean_excess df) (strategy_mean_excess df))"

text \<open>The three validation checks of lines 57 to 67 all pass.\<close>

definition validated :: "'id actual_row list \<Rightarrow> 'id submission \<Rightarrow> bool" where
  "validated solution submission =
     (\<not> any_null (merge_left solution (sub_rows submission)) \<and> number_dtype submission \<and>
      \<not> out_of_bounds (merge_left solution (sub_rows submission)))"

text \<open>
  A series that is constant across all periods: it has a first value, and the value of
  every other period is equal to it.
\<close>

fun constant_series :: "real list \<Rightarrow> bool" where
  "constant_series [] = False"
| "constant_series (x # xs) = (\<forall>y \<in> set xs. y = x)"

subsection \<open>Example data\<close>

definition row :: "nat \<Rightarrow> real \<Rightarrow> real \<Rightarrow> nat actual_row" where
  "row k fr rf = \<lparr>row_id = k, forward_returns = fr, risk_free_rate = rf\<rparr>"

definition numeric_submission :: "(nat \<times> real) list \<Rightarrow> nat submission" where
  "numeric_submission ps = \<lparr>number_dtype = True, sub_rows = map (\<lambda>(k, x). (k, Num x)) ps\<rparr>"

text \<open>The worked example of the specification: three periods, fully invested.\<close>

definition worked_solution :: "nat actual_row list" where
  "worked_solution = [row 0 (1/100) (1/10000), row 1 (-2/100) (1/10000), row 2 (15/1000) (1/10000)]"

definition worked_submission :: "nat submission" where
  "worked_submission = numeric_submission [(0, 1), (1, 1), (2, 1)]"

subsection \<open>The standard deviation in binary64\<close>

text \<open>
  Rounding of a real number to the nearest integer, ties to the even one.
\<close>

definition round_even :: "real \<Rightarrow> int" where
  "round_even x =
     (let f = \<lfloor>x\<rfloor> in
      if x - of_int f < 1/2 then f
      else if 1/2 < x - of_int f then f + 1
      else if even f then f else f + 1)"

text \<open>
  Rounding to the nearest binary64 number (53 significant bits, ties to even). The
  exponent range is not modelled: no overflow and no subnormal numbers.
\<close>

definition binary64 :: "real \<Rightarrow> real" where
  "binary64 x =
     (if x = 0 then 0
      else let e = \<lfloor>log 2 \<bar>x\<bar>\<rfloor> - 52
           in of_int (round_even (x / 2 powr of_int e)) * 2 powr of_int e)"

text \<open>
  \<open>ndarray.sum()\<close> on a column of fewer than 8 elements: the elements are added from
  left to right, each addition rounded.
\<close>

definition float_sum :: "real list \<Rightarrow> real" where
  "float_sum xs = foldl (\<lambda>acc x. binary64 (acc + x)) 0 xs"

text \<open>
  \<open>Series.std(ddof=0)\<close> as pandas computes it on a float64 column without NaN: the mean
  is the sum divided by the count, the deviations from the mean are squared, the sum of
  the squares is divided by the count, and the square root is taken; every operation is
  rounded to binary64.
\<close>

definition float_std :: "real list \<Rightarrow> real" where
  "float_std xs =
     (let count = real (length xs);
          avg = binary64 (float_sum xs / count);
          sqr = map (\<lambda>x. let dev = binary64 (avg - x) in binary64 (dev * dev)) xs
      in binary64 (sqrt (binary64 (float_sum sqr / count))))"

text \<open>The binary64 number nearest to 0.1, which is what the float literal 0.1 denotes.\<close>

definition tenth :: real where
  "tenth = 3602879701896397 / 36028797018963968"

text \<open>Three periods with the same forward return 0.1 and risk-free rate 0.\<close>

definition constant_solution :: "nat actual_row list" where
  "constant_solution = [row 0 tenth 0, row 1 tenth 0, row 2 tenth 0]"

section \<open>Properties\<close>

subsection \<open>The merge\<close>

lemma length_merge_row:
  "length (merge_row rs a) = max 1 (length (matches (row_id a) rs))"
  by (simp add: merge_row_def split: list.splits)

lemma length_merge_left:
  "length (merge_left solution rs) = (\<Sum>a\<leftarrow>solution. max 1 (length (matches (row_id a) rs)))"
  by (simp add: merge_left_def length_concat length_merge_row comp_def)

lemma sum_list_max1_ge:
  fixes f :: "'a \<Rightarrow> nat"
  shows "length xs \<le> (\<Sum>x\<leftarrow>xs. max 1 (f x))"
  by (induction xs) auto

lemma sum_list_max1_eq:
  fixes f :: "'a \<Rightarrow> nat"
  shows "(\<Sum>x\<leftarrow>xs. max 1 (f x)) = length xs \<longleftrightarrow> (\<forall>x \<in> set xs. f x \<le> 1)"
proof (induction xs)
  case Nil
  show ?case by simp
next
  case (Cons x xs)
  have ge: "length xs \<le> (\<Sum>y\<leftarrow>xs. max 1 (f y))"
    by (rule sum_list_max1_ge)
  show ?case
  proof (cases "f x \<le> 1")
    case True
    then have "max 1 (f x) = 1" by simp
    with Cons True show ?thesis by simp
  next
    case False
    then have "2 \<le> max 1 (f x)" by simp
    with ge False show ?thesis by auto
  qed
qed

subsection \<open>Validation and the stages of the scoring function\<close>

lemma set_merge_row:
  "prediction ` set (merge_row rs a) =
     (if matches (row_id a) rs = [] then {Null} else set (matches (row_id a) rs))"
  by (auto simp: merge_row_def join_row_def image_image split: list.splits)

lemma any_null_merge_left:
  "any_null (merge_left solution rs) \<longleftrightarrow>
     (\<exists>a \<in> set solution. matches (row_id a) rs = [] \<or> Null \<in> set (matches (row_id a) rs))"
proof -
  have "any_null (merge_left solution rs) \<longleftrightarrow>
          (\<exists>a \<in> set solution. Null \<in> prediction ` set (merge_row rs a))"
    unfolding any_null_def merge_left_def image_iff by auto metis+
  then show ?thesis
    by (auto simp: set_merge_row split: if_splits)
qed

lemma nan_gt_series_max: "nan_gt (series_max xs) b \<longleftrightarrow> (\<exists>x \<in> set xs. b < x)"
  by (simp add: nan_gt_def series_max_def Max_gr_iff)

lemma nan_lt_series_min: "nan_lt (series_min xs) b \<longleftrightarrow> (\<exists>x \<in> set xs. x < b)"
  by (simp add: nan_lt_def series_min_def Min_less_iff)

lemma out_of_bounds_iff:
  "out_of_bounds df \<longleftrightarrow> (\<exists>r \<in> set df. position r < 0 \<or> 2 < position r)"
  by (auto simp: out_of_bounds_def nan_gt_series_max nan_lt_series_min)

lemma mean_excess_Nil: "mean_excess [] 0 = Inl ZeroDivisionError"
  by (simp add: mean_excess_def excess_cum_def)

lemma mean_excess_nonempty:
  "excess \<noteq> [] \<Longrightarrow> mean_excess excess (length excess) = Inr (mean_excess_of excess)"
  by (simp add: mean_excess_def mean_excess_of_def Let_def)

lemma length_strategy_excess [simp]: "length (strategy_excess df) = length df"
  by (simp add: strategy_excess_def)

lemma length_market_excess [simp]: "length (market_excess df) = length df"
  by (simp add: market_excess_def)

lemma score_missing:
  "any_null (merge_left solution (sub_rows submission)) \<Longrightarrow>
     compute_adjusted_sharpe solution submission = Inl MissingPredictionError"
  by (simp add: compute_adjusted_sharpe_def)

lemma score_invalid:
  "\<not> any_null (merge_left solution (sub_rows submission)) \<Longrightarrow> \<not> number_dtype submission \<Longrightarrow>
     compute_adjusted_sharpe solution submission = Inl InvalidPredictionTypeError"
  by (simp add: compute_adjusted_sharpe_def)

lemma score_out_of_bounds:
  "\<not> any_null (merge_left solution (sub_rows submission)) \<Longrightarrow> number_dtype submission \<Longrightarrow>
   out_of_bounds (merge_left solution (sub_rows submission)) \<Longrightarrow>
     compute_adjusted_sharpe solution submission = Inl OutOfBoundsError"
  by (simp add: compute_adjusted_sharpe_def)

lemma score_empty:
  "validated solution submission \<Longrightarrow> merge_left solution (sub_rows submission) = [] \<Longrightarrow>
     compute_adjusted_sharpe solution submission = Inl ZeroDivisionError"
  by (simp add: compute_adjusted_sharpe_def validated_def strategy_excess_def mean_excess_Nil)

lemma score_validated:
  assumes "validated solution submission"
    and "df = merge_left solution (sub_rows submission)"
    and "df \<noteq> []"
  shows "compute_adjusted_sharpe solution submission =
     (if strategy_std df = 0 then Inl StrategyStdZero
      else if market_volatility df = 0 then Inl MarketStdZero
      else Inr (capped (adjusted_sharpe (strategy_sharpe df) (frame_vol_penalty df)
                  (frame_return_penalty df))))"
proof -
  have s: "mean_excess (strategy_excess df) (length df) = Inr (strategy_mean_excess df)"
    using mean_excess_nonempty [of "strategy_excess df"] assms(3)
    by (simp add: strategy_mean_excess_def strategy_excess_def)
  have m: "mean_excess (market_excess df) (length df) = Inr (market_mean_excess df)"
    using mean_excess_nonempty [of "market_excess df"] assms(3)
    by (simp add: market_mean_excess_def market_excess_def)
  show ?thesis
    using assms(1) s m
    unfolding compute_adjusted_sharpe_def validated_def assms(2) [symmetric]
    by (simp add: Let_def strategy_std_def market_std_def market_volatility_def
        strategy_volatility_def strategy_sharpe_def frame_vol_penalty_def
        frame_return_penalty_def)
qed

lemma merge_left_two_rows:
  "merge_left [row 1 a b, row 2 c d] (sub_rows (numeric_submission [(1, p), (2, q)])) =
     [join_row (row 1 a b) (Num p), join_row (row 2 c d) (Num q)]"
  by (simp add: merge_left_def merge_row_def matches_def row_def numeric_submission_def)

lemma matches_mem: "(k, c) \<in> set rs \<Longrightarrow> c \<in> set (matches k rs)"
  by (force simp: matches_def)

lemma score_missing_iff:
  "compute_adjusted_sharpe solution submission = Inl MissingPredictionError \<longleftrightarrow>
     any_null (merge_left solution (sub_rows submission))"
proof
  assume l: "compute_adjusted_sharpe solution submission = Inl MissingPredictionError"
  show "any_null (merge_left solution (sub_rows submission))"
  proof (rule ccontr)
    assume n: "\<not> any_null (merge_left solution (sub_rows submission))"
    show False
    proof (cases "validated solution submission")
      case False
      with n l show False
        using score_invalid [of solution submission] score_out_of_bounds [of solution submission]
        by (auto simp: validated_def)
    next
      case True
      show False
      proof (cases "merge_left solution (sub_rows submission) = []")
        case True
        with \<open>validated solution submission\<close> l show False
          using score_empty [of solution submission] by simp
      next
        case False
        with \<open>validated solution submission\<close> l show False
          using score_validated [of solution submission "merge_left solution (sub_rows submission)"]
          by (simp split: if_splits)
      qed
    qed
  qed
next
  assume "any_null (merge_left solution (sub_rows submission))"
  then show "compute_adjusted_sharpe solution submission = Inl MissingPredictionError"
    by (rule score_missing)
qed

section \<open>The claims\<close>

subsection \<open>C9: size of the joined set\<close>

text \<open>
  C9, as amended. The left join never has fewer rows than the solution, and it has
  exactly as many rows as the solution if and only if no identifier of a solution row
  occurs more than once among the identifiers of the submission. (A solution row that
  matches \<open>k > 1\<close> submission rows is repeated \<open>k\<close> times, so the sizes differ as soon
  as the submission repeats an identifier of the solution.)
\<close>

theorem merge_left_length:
  "length solution \<le> length (merge_left solution rs) \<and>
   (length (merge_left solution rs) = length solution \<longleftrightarrow>
      (\<forall>a \<in> set solution. length (matches (row_id a) rs) \<le> 1))"
  unfolding length_merge_left
  using sum_list_max1_ge [of solution "\<lambda>a. length (matches (row_id a) rs)"]
    sum_list_max1_eq [of "\<lambda>a. length (matches (row_id a) rs)" solution]
  by blast

theorem merge_left_length_witness:
  "length (merge_left [row 1 0 0, row 2 0 0] [(1, Num 1)]) = 2"
  using merge_left_length [of "[row 1 0 0, row 2 0 0]" "[(1, Num 1)]"]
  by (simp add: matches_def row_def)

theorem merge_left_length_counterexample:
  "length (merge_left [row 1 0 0] [(1, Num 1), (1, Num 1)]) \<noteq> length [row 1 0 0]"
  by (simp add: merge_left_def merge_row_def matches_def row_def)

subsection \<open>C4: the strategy return of a row\<close>

text \<open>
  C4. For every joined row with a numeric prediction \<open>p\<close>, the strategy return is
  \<open>risk_free_rate * (1 - p) + p * forward_return\<close>; with \<open>p = 0\<close> it is the risk-free
  rate and with \<open>p = 1\<close> it is the forward return.
\<close>

theorem strategy_return_blend:
  assumes "i < length df" and "prediction (df ! i) = Num p"
  shows "strategy_returns df ! i =
           risk_free_rate (df ! i) * (1 - p) + p * forward_returns (df ! i) \<and>
         (p = 0 \<longrightarrow> strategy_returns df ! i = risk_free_rate (df ! i)) \<and>
         (p = 1 \<longrightarrow> strategy_returns df ! i = forward_returns (df ! i))"
  using assms by (simp add: strategy_returns_def strategy_return_def position_def)

theorem strategy_return_blend_witness:
  "strategy_returns (merge_left [row 1 (1/100) (1/10000), row 2 (-2/100) (3/10000)]
      (sub_rows (numeric_submission [(1, 0), (2, 1)]))) ! 0 = 1/10000 \<and>
   strategy_returns (merge_left [row 1 (1/100) (1/10000), row 2 (-2/100) (3/10000)]
      (sub_rows (numeric_submission [(1, 0), (2, 1)]))) ! 1 = -2/100"
  using strategy_return_blend [of 0 "merge_left [row 1 (1/100) (1/10000), row 2 (-2/100) (3/10000)]
      (sub_rows (numeric_submission [(1, 0), (2, 1)]))" 0]
    strategy_return_blend [of 1 "merge_left [row 1 (1/100) (1/10000), row 2 (-2/100) (3/10000)]
      (sub_rows (numeric_submission [(1, 0), (2, 1)]))" 1]
  unfolding merge_left_two_rows
  by (simp add: join_row_def row_def)

subsection \<open>C10: a null prediction in the submission\<close>

text \<open>
  C10. If a submission row carries the identifier of a solution row and a null
  prediction, the score is \<open>MissingPredictionError\<close>, whatever the dtype of the column
  and whatever the other predictions are: the null check of line 57 runs before the
  dtype check and the bounds check.
\<close>

theorem null_prediction_is_missing:
  assumes "a \<in> set solution" and "(row_id a, Null) \<in> set (sub_rows submission)"
  shows "compute_adjusted_sharpe solution submission = Inl MissingPredictionError"
proof -
  have "Null \<in> set (matches (row_id a) (sub_rows submission))"
    using assms(2) by (rule matches_mem)
  with assms(1) have "any_null (merge_left solution (sub_rows submission))"
    unfolding any_null_merge_left by blast
  then show ?thesis by (rule score_missing)
qed

theorem null_prediction_is_missing_witness:
  "compute_adjusted_sharpe [row 1 (1/100) 0, row 2 (2/100) 0]
     \<lparr>number_dtype = False, sub_rows = [(1, Obj), (2, Null), (2, Num 5)]\<rparr>
     = Inl MissingPredictionError"
  using null_prediction_is_missing [of "row 2 (2/100) 0" "[row 1 (1/100) 0, row 2 (2/100) 0]"
     "\<lparr>number_dtype = False, sub_rows = [(1, Obj), (2, Null), (2, Num 5)]\<rparr>"]
  by (simp add: row_def)

subsection \<open>C8: missing predictions\<close>

text \<open>
  C8, as amended. The score is \<open>MissingPredictionError\<close> exactly when some joined row
  lacks a prediction, that is, when some solution row has an identifier with no
  submission row, or with a submission row whose prediction is null; then no score is
  returned. (A matched row with a null prediction raises the same error as an unmatched
  identifier.)
\<close>

theorem missing_prediction_iff:
  "(compute_adjusted_sharpe solution submission = Inl MissingPredictionError \<longleftrightarrow>
      (\<exists>r \<in> set (merge_left solution (sub_rows submission)). prediction r = Null)) \<and>
   ((\<exists>r \<in> set (merge_left solution (sub_rows submission)). prediction r = Null) \<longleftrightarrow>
      (\<exists>a \<in> set solution. matches (row_id a) (sub_rows submission) = [] \<or>
                            Null \<in> set (matches (row_id a) (sub_rows submission)))) \<and>
   (compute_adjusted_sharpe solution submission = Inl MissingPredictionError \<longrightarrow>
      (\<forall>v. compute_adjusted_sharpe solution submission \<noteq> Inr v))"
  using score_missing_iff [of solution submission]
    any_null_merge_left [of solution "sub_rows submission"]
  by (auto simp: any_null_def)

theorem missing_prediction_iff_witness:
  "compute_adjusted_sharpe [row 1 (1/100) 0, row 2 (2/100) 0] (numeric_submission [(1, 1)])
     = Inl MissingPredictionError"
  using missing_prediction_iff [of "[row 1 (1/100) 0, row 2 (2/100) 0]" "numeric_submission [(1, 1)]"]
  by (simp add: row_def numeric_submission_def matches_def)

theorem missing_prediction_counterexample:
  "compute_adjusted_sharpe [row 1 (1/100) 0] \<lparr>number_dtype = True, sub_rows = [(1, Null)]\<rparr>
     = Inl MissingPredictionError \<and>
   matches (row_id (row 1 (1/100) 0)) (sub_rows \<lparr>number_dtype = True, sub_rows = [(1::nat, Null)]\<rparr>) \<noteq> []"
  by (simp add: compute_adjusted_sharpe_def merge_left_def merge_row_def matches_def row_def
      any_null_def join_row_def)

subsection \<open>C7: predictions out of bounds\<close>

text \<open>
  C7. When the prediction column has a numeric dtype and every joined prediction is a
  number, the score is \<open>OutOfBoundsError\<close> exactly when some prediction is below 0 or
  above 2. The witness shows 0 and 2 accepted, 2.5 and -0.1 rejected.
\<close>

theorem out_of_bounds_iff_outside:
  assumes "number_dtype submission"
    and "\<forall>r \<in> set (merge_left solution (sub_rows submission)). \<exists>x. prediction r = Num x"
  shows "compute_adjusted_sharpe solution submission = Inl OutOfBoundsError \<longleftrightarrow>
     (\<exists>r \<in> set (merge_left solution (sub_rows submission)). \<exists>x. prediction r = Num x \<and> (x < 0 \<or> 2 < x))"
proof -
  let ?df = "merge_left solution (sub_rows submission)"
  have nn: "\<not> any_null ?df"
    using assms(2) by (auto simp: any_null_def)
  have oob: "out_of_bounds ?df \<longleftrightarrow>
      (\<exists>r \<in> set ?df. \<exists>x. prediction r = Num x \<and> (x < 0 \<or> 2 < x))"
  proof -
    have "(position r < 0 \<or> 2 < position r) \<longleftrightarrow>
            (\<exists>x. prediction r = Num x \<and> (x < 0 \<or> 2 < x))" if "r \<in> set ?df" for r
      using assms(2) that by (auto simp: position_def)
    then show ?thesis
      unfolding out_of_bounds_iff by blast
  qed
  show ?thesis
  proof (cases "out_of_bounds ?df")
    case True
    with nn assms(1) oob show ?thesis
      using score_out_of_bounds [of solution submission] by simp
  next
    case False
    with nn assms(1) have v: "validated solution submission"
      by (simp add: validated_def)
    have "compute_adjusted_sharpe solution submission \<noteq> Inl OutOfBoundsError"
    proof (cases "?df = []")
      case True
      with v show ?thesis using score_empty [of solution submission] by simp
    next
      case ne: False
      with v show ?thesis
        using score_validated [of solution submission ?df] by simp
    qed
    with False oob show ?thesis by simp
  qed
qed

theorem out_of_bounds_iff_outside_witness:
  "compute_adjusted_sharpe [row 1 (1/100) 0, row 2 (2/100) 0] (numeric_submission [(1, 0), (2, 2)])
     \<noteq> Inl OutOfBoundsError \<and>
   compute_adjusted_sharpe [row 1 (1/100) 0, row 2 (2/100) 0] (numeric_submission [(1, 5/2), (2, 1)])
     = Inl OutOfBoundsError \<and>
   compute_adjusted_sharpe [row 1 (1/100) 0, row 2 (2/100) 0] (numeric_submission [(1, 1), (2, - 1/10)])
     = Inl OutOfBoundsError"
proof -
  have d: "\<forall>r \<in> set (merge_left [row 1 (1/100) 0, row 2 (2/100) 0]
              (sub_rows (numeric_submission [(1, p), (2, q)]))). \<exists>x. prediction r = Num x" for p q
    unfolding merge_left_two_rows by (simp add: join_row_def)
  have n: "number_dtype (numeric_submission ps)" for ps
    by (simp add: numeric_submission_def)
  note t = out_of_bounds_iff_outside [OF n d]
  show ?thesis
    unfolding t merge_left_two_rows
    by (simp add: join_row_def) (rule exI [of _ "5/2"], simp)
qed

subsection \<open>C2: monotonicity in the penalties\<close>

lemma return_penalty_ge_1: "1 \<le> return_penalty rg"
  by (simp add: return_penalty_def)

lemma vol_penalty_ge_1: "0 \<le> ev \<Longrightarrow> 1 \<le> vol_penalty ev"
  by (simp add: vol_penalty_def)

lemma excess_vol_nonneg: "0 \<le> excess_vol sv mv"
  by (simp add: excess_vol_def)

lemma return_gap_nonneg: "0 \<le> return_gap m s"
  by (simp add: return_gap_def)

lemma return_penalty_strict_mono:
  assumes "0 \<le> g1" and "g1 < g2"
  shows "return_penalty g1 < return_penalty g2"
proof -
  have "g1\<^sup>2 < g2\<^sup>2"
    using assms by (simp add: power_strict_mono)
  then show ?thesis
    by (simp add: return_penalty_def)
qed

lemma adjusted_sharpe_gap_decreasing:
  assumes "0 < sharpe" and "0 \<le> ev" and "0 \<le> g1" and "g1 < g2"
  shows "adjusted_sharpe sharpe (vol_penalty ev) (return_penalty g2)
           < adjusted_sharpe sharpe (vol_penalty ev) (return_penalty g1)"
proof -
  have v: "0 < vol_penalty ev"
    using vol_penalty_ge_1 [OF assms(2)] by simp
  have p: "0 < return_penalty g1"
    using return_penalty_ge_1 [of g1] by simp
  have "vol_penalty ev * return_penalty g1 < vol_penalty ev * return_penalty g2"
    using v return_penalty_strict_mono [OF assms(3,4)] by simp
  moreover have "0 < vol_penalty ev * return_penalty g1"
    using v p by simp
  ultimately show ?thesis
    unfolding adjusted_sharpe_def using assms(1) by (simp add: divide_strict_left_mono)
qed

lemma adjusted_sharpe_vol_decreasing:
  assumes "0 < sharpe" and "0 \<le> e1" and "e1 < e2"
  shows "adjusted_sharpe sharpe (vol_penalty e2) (return_penalty g)
           < adjusted_sharpe sharpe (vol_penalty e1) (return_penalty g)"
proof -
  have v: "0 < vol_penalty e1"
    using vol_penalty_ge_1 [OF assms(2)] by simp
  have p: "0 < return_penalty g"
    using return_penalty_ge_1 [of g] by simp
  have "vol_penalty e1 * return_penalty g < vol_penalty e2 * return_penalty g"
    using p assms(3) by (simp add: vol_penalty_def)
  moreover have "0 < vol_penalty e1 * return_penalty g"
    using v p by simp
  ultimately show ?thesis
    unfolding adjusted_sharpe_def using assms(1) by (simp add: divide_strict_left_mono)
qed

lemma capped_strict: "a < b \<Longrightarrow> a < 1000000 \<Longrightarrow> capped a < capped b"
  by (simp add: capped_def)

lemma capped_le: "capped a \<le> 1000000"
  by (simp add: capped_def)

text \<open>
  C2, as amended. \<open>return_gap\<close> and \<open>excess_vol\<close> are never negative
  (\<open>return_gap_nonneg\<close>, \<open>excess_vol_nonneg\<close>). For a fixed positive Sharpe ratio and a
  fixed volatility penalty, a strictly larger return gap gives a strictly smaller
  \<open>adjusted_sharpe\<close>, and a strictly smaller final (capped) score whenever the score at
  the larger gap is below the cap of 1,000,000; likewise for a strictly larger excess
  volatility at a fixed return penalty. (For a Sharpe ratio that is zero or negative the
  score does not decrease, and above the cap both scores are 1,000,000.)
\<close>

theorem penalties_decrease_positive_sharpe:
  assumes "0 < sharpe"
  shows "(0 \<le> ev \<and> 0 \<le> g1 \<and> g1 < g2 \<longrightarrow>
            adjusted_sharpe sharpe (vol_penalty ev) (return_penalty g2)
              < adjusted_sharpe sharpe (vol_penalty ev) (return_penalty g1) \<and>
            (adjusted_sharpe sharpe (vol_penalty ev) (return_penalty g2) < 1000000 \<longrightarrow>
               capped (adjusted_sharpe sharpe (vol_penalty ev) (return_penalty g2))
                 < capped (adjusted_sharpe sharpe (vol_penalty ev) (return_penalty g1)))) \<and>
         (0 \<le> e1 \<and> e1 < e2 \<longrightarrow>
            adjusted_sharpe sharpe (vol_penalty e2) (return_penalty g)
              < adjusted_sharpe sharpe (vol_penalty e1) (return_penalty g) \<and>
            (adjusted_sharpe sharpe (vol_penalty e2) (return_penalty g) < 1000000 \<longrightarrow>
               capped (adjusted_sharpe sharpe (vol_penalty e2) (return_penalty g))
                 < capped (adjusted_sharpe sharpe (vol_penalty e1) (return_penalty g))))"
  using adjusted_sharpe_gap_decreasing [OF assms, of ev g1 g2]
    adjusted_sharpe_vol_decreasing [OF assms, of e1 e2 g]
  by (auto intro: capped_strict)

theorem penalties_decrease_positive_sharpe_witness:
  "capped (adjusted_sharpe 2 (vol_penalty 0) (return_penalty 10))
     < capped (adjusted_sharpe 2 (vol_penalty 0) (return_penalty 0)) \<and>
   capped (adjusted_sharpe 2 (vol_penalty 1) (return_penalty 0))
     < capped (adjusted_sharpe 2 (vol_penalty 0) (return_penalty 0))"
  using penalties_decrease_positive_sharpe [of 2 0 0 10 0 1 0]
  by (simp add: adjusted_sharpe_def vol_penalty_def return_penalty_def)

theorem penalties_decrease_counterexample:
  "\<not> capped (adjusted_sharpe (-1) (vol_penalty 0) (return_penalty 10))
       < capped (adjusted_sharpe (-1) (vol_penalty 0) (return_penalty 0)) \<and>
   \<not> capped (adjusted_sharpe (-1) (vol_penalty 1) (return_penalty 0))
       < capped (adjusted_sharpe (-1) (vol_penalty 0) (return_penalty 0)) \<and>
   \<not> capped (adjusted_sharpe 4000000 (vol_penalty 0) (return_penalty 10))
       < capped (adjusted_sharpe 4000000 (vol_penalty 0) (return_penalty 0)) \<and>
   \<not> capped (adjusted_sharpe 4000000 (vol_penalty 1) (return_penalty 0))
       < capped (adjusted_sharpe 4000000 (vol_penalty 0) (return_penalty 0))"
  by (simp add: capped_def adjusted_sharpe_def vol_penalty_def return_penalty_def)

subsection \<open>C5: geometric or arithmetic mean excess return\<close>

lemma prod_list_map_nth:
  fixes f :: "'a \<Rightarrow> real"
  shows "prod_list (map f xs) = (\<Prod>i<length xs. f (xs ! i))"
  by (induction xs) (simp_all add: prod.lessThan_Suc_shift del: prod.lessThan_Suc)

lemma sum_list_map_nth:
  fixes f :: "'a \<Rightarrow> real"
  shows "sum_list (map f xs) = (\<Sum>i<length xs. f (xs ! i))"
proof -
  have "sum_list (map f xs) = (\<Sum>i = 0..<length (map f xs). map f xs ! i)"
    by (rule sum_list_sum_nth)
  then show ?thesis
    by (simp add: atLeast0LessThan)
qed

lemma mean_excess_of_map:
  fixes f :: "'a \<Rightarrow> real"
  shows "mean_excess_of (map f xs) =
     (if (\<Prod>i<length xs. 1 + f (xs ! i)) \<le> 0 then (\<Sum>i<length xs. f (xs ! i)) / real (length xs)
      else (\<Prod>i<length xs. 1 + f (xs ! i)) powr (1 / real (length xs)) - 1)"
  using prod_list_map_nth [of "\<lambda>x. 1 + f x" xs] sum_list_map_nth [of f xs]
  by (simp add: mean_excess_of_def excess_cum_def mean_def comp_def)

text \<open>
  C5. On a non-empty joined frame of \<open>n\<close> rows, for the strategy series and for the
  market series alike, the mean excess return is the arithmetic mean of the excess
  series when the product of \<open>1 + excess\<^sub>i\<close> over the \<open>n\<close> periods is at most 0, and
  that product to the power \<open>1/n\<close>, minus 1, otherwise.
\<close>

theorem mean_excess_branches:
  assumes "df \<noteq> []"
  shows "mean_excess (strategy_excess df) (length df) =
           Inr (if (\<Prod>i<length df. 1 + (strategy_returns df ! i - risk_free_rate (df ! i))) \<le> 0
                then (\<Sum>i<length df. strategy_returns df ! i - risk_free_rate (df ! i)) / real (length df)
                else (\<Prod>i<length df. 1 + (strategy_returns df ! i - risk_free_rate (df ! i)))
                       powr (1 / real (length df)) - 1) \<and>
         mean_excess (market_excess df) (length df) =
           Inr (if (\<Prod>i<length df. 1 + (forward_returns (df ! i) - risk_free_rate (df ! i))) \<le> 0
                then (\<Sum>i<length df. forward_returns (df ! i) - risk_free_rate (df ! i)) / real (length df)
                else (\<Prod>i<length df. 1 + (forward_returns (df ! i) - risk_free_rate (df ! i)))
                       powr (1 / real (length df)) - 1)"
proof -
  have s: "mean_excess (strategy_excess df) (length df) = Inr (mean_excess_of (strategy_excess df))"
    using mean_excess_nonempty [of "strategy_excess df"] assms by (simp add: strategy_excess_def)
  have m: "mean_excess (market_excess df) (length df) = Inr (mean_excess_of (market_excess df))"
    using mean_excess_nonempty [of "market_excess df"] assms by (simp add: market_excess_def)
  show ?thesis
    unfolding s m unfolding strategy_excess_def market_excess_def mean_excess_of_map
    by (simp add: strategy_returns_def)
qed

theorem mean_excess_branches_witness:
  "mean_excess (strategy_excess (merge_left [row 1 (-6/10) 0, row 2 (-1/10) 0]
      (sub_rows (numeric_submission [(1, 2), (2, 0)]))))
      (length (merge_left [row 1 (-6/10) 0, row 2 (-1/10) 0]
         (sub_rows (numeric_submission [(1, 2), (2, 0)])))) = Inr (-6/10) \<and>
   mean_excess (market_excess (merge_left [row 1 (-6/10) 0, row 2 (-1/10) 0]
      (sub_rows (numeric_submission [(1, 2), (2, 0)]))))
      (length (merge_left [row 1 (-6/10) 0, row 2 (-1/10) 0]
         (sub_rows (numeric_submission [(1, 2), (2, 0)])))) = Inr ((36/100) powr (1/2) - 1)"
  using mean_excess_branches [of "merge_left [row 1 (-6/10) 0, row 2 (-1/10) 0]
      (sub_rows (numeric_submission [(1, 2), (2, 0)]))"]
  unfolding merge_left_two_rows
  by (simp add: join_row_def row_def strategy_returns_def strategy_return_def position_def)

subsection \<open>C6: zero volatility\<close>

lemma constant_series_iff: "constant_series xs \<longleftrightarrow> (\<exists>c. set xs = {c})"
proof (cases xs)
  case Nil
  then show ?thesis by simp
next
  case (Cons x ys)
  show ?thesis
  proof
    assume "constant_series xs"
    with Cons have "set xs = {x}"
      by auto
    then show "\<exists>c. set xs = {c}" ..
  next
    assume "\<exists>c. set xs = {c}"
    then obtain c where "set xs = {c}" ..
    with Cons have "x = c" and "\<forall>y \<in> set ys. y = c"
      by auto
    with Cons show "constant_series xs"
      by simp
  qed
qed

lemma sum_list_const:
  fixes c :: real
  shows "\<forall>x \<in> set xs. x = c \<Longrightarrow> sum_list xs = real (length xs) * c"
  by (induction xs) (simp_all add: distrib_right)

lemma sum_sq_eq_0_iff:
  fixes m :: real
  shows "sum_list (map (\<lambda>x. (x - m)\<^sup>2) xs) = 0 \<longleftrightarrow> (\<forall>x \<in> set xs. x = m)"
proof (induction xs)
  case Nil
  show ?case by simp
next
  case (Cons a xs)
  have nn: "0 \<le> sum_list (map (\<lambda>x. (x - m)\<^sup>2) xs)"
    by (rule sum_list_nonneg) auto
  have "(a - m)\<^sup>2 + sum_list (map (\<lambda>x. (x - m)\<^sup>2) xs) = 0 \<longleftrightarrow>
          (a - m)\<^sup>2 = 0 \<and> sum_list (map (\<lambda>x. (x - m)\<^sup>2) xs) = 0"
    using nn by (rule add_nonneg_eq_0_iff [OF zero_le_power2])
  with Cons show ?case by simp
qed

lemma pstd_eq_0_iff_mean:
  assumes "xs \<noteq> []"
  shows "pstd xs = 0 \<longleftrightarrow> (\<forall>x \<in> set xs. x = mean xs)"
  using assms by (simp add: pstd_def sum_sq_eq_0_iff)

lemma pstd_eq_0_iff:
  assumes "xs \<noteq> []"
  shows "pstd xs = 0 \<longleftrightarrow> constant_series xs"
proof
  assume "pstd xs = 0"
  then have all: "\<forall>x \<in> set xs. x = mean xs"
    using pstd_eq_0_iff_mean [OF assms] by blast
  obtain y ys where "xs = y # ys"
    using assms by (cases xs) blast+
  then have "y \<in> set xs"
    by simp
  with all have "mean xs \<in> set xs"
    by metis
  with all have "set xs = {mean xs}"
    by blast
  then show "constant_series xs"
    unfolding constant_series_iff by (rule exI)
next
  assume "constant_series xs"
  then obtain c where c: "set xs = {c}"
    unfolding constant_series_iff by blast
  then have all: "\<forall>x \<in> set xs. x = c"
    by blast
  have "sum_list xs = real (length xs) * c"
    using all by (rule sum_list_const)
  moreover have "real (length xs) \<noteq> 0"
    using assms by simp
  ultimately have "mean xs = c"
    unfolding mean_def by simp
  with all have "\<forall>x \<in> set xs. x = mean xs"
    by blast
  then show "pstd xs = 0"
    using pstd_eq_0_iff_mean [OF assms] by blast
qed

lemma annualized_volatility_eq_0_iff: "annualized_volatility s = 0 \<longleftrightarrow> s = 0"
  by (simp add: annualized_volatility_def trading_days_per_yr_def)

lemma validated_two_rows:
  "0 \<le> p \<Longrightarrow> p \<le> 2 \<Longrightarrow> 0 \<le> q \<Longrightarrow> q \<le> 2 \<Longrightarrow>
   validated [row 1 a b, row 2 c d] (numeric_submission [(1, p), (2, q)])"
  unfolding validated_def merge_left_two_rows
  by (simp add: any_null_def out_of_bounds_iff join_row_def position_def numeric_submission_def)

lemma two_powr_neg: "2 powr of_int (- int n) = 1 / (2::real) ^ n"
proof -
  have "(2::real) powr of_int (- int n) = 2 powr (- real n)"
    by simp
  also have "\<dots> = 1 / 2 powr real n"
    by (simp add: powr_minus divide_inverse)
  also have "\<dots> = 1 / 2 ^ n"
    by (simp add: powr_realpow)
  finally show ?thesis .
qed

lemma binary64_small:
  assumes "1 / 2 ^ n \<le> \<bar>x\<bar>" and "\<bar>x\<bar> < 2 / 2 ^ n"
  shows "binary64 x = of_int (round_even (x * 2 ^ (n + 52))) / 2 ^ (n + 52)"
proof -
  have pos: "0 < \<bar>x\<bar>"
    using assms(1) by (smt (verit) divide_pos_pos zero_less_power zero_less_one)
  have "(2::real) powr (of_int (- int n) + 1) = 2 powr of_int (- int n) * 2 powr 1"
    by (rule powr_add)
  then have up: "(2::real) powr (of_int (- int n) + 1) = 2 / 2 ^ n"
    unfolding two_powr_neg by simp
  have "\<lfloor>log 2 \<bar>x\<bar>\<rfloor> = - int n"
    using assms two_powr_neg [of n] up
    by (subst floor_log_eq_powr_iff [OF pos]) simp_all
  moreover have "- int n - 52 = - int (n + 52)"
    by simp
  ultimately have e: "\<lfloor>log 2 \<bar>x\<bar>\<rfloor> - 52 = - int (n + 52)"
    by simp
  have "x \<noteq> 0"
    using pos by simp
  then show ?thesis
    unfolding binary64_def e Let_def two_powr_neg by simp
qed

lemma tenth_nearest: "binary64 (1/10) = tenth"
  by (subst binary64_small [of 4]) (simp_all add: tenth_def round_even_def)

lemma rounded_tenth: "binary64 tenth = tenth"
  by (subst binary64_small [of 4]) (simp_all add: tenth_def round_even_def)

lemma rounded_sum_two: "binary64 (tenth + tenth) = 2 * tenth"
  by (subst binary64_small [of 3]) (simp_all add: tenth_def round_even_def)

lemma rounded_sum_three: "binary64 (2 * tenth + tenth) = 5404319552844596 / 2 ^ 54"
  by (subst binary64_small [of 2]) (simp_all add: tenth_def round_even_def)

lemma rounded_mean: "binary64 (5404319552844596 / 2 ^ 54 / 3) = 7205759403792795 / 2 ^ 56"
  by (subst binary64_small [of 4]) (simp_all add: round_even_def)

lemma float_sum_tenths: "float_sum [tenth, tenth, tenth] = 5404319552844596 / 2 ^ 54"
  unfolding float_sum_def foldl.simps add_0_left rounded_tenth rounded_sum_two rounded_sum_three ..

lemma rounded_deviation: "binary64 (7205759403792795 / 2 ^ 56 - tenth) = 1 / 2 ^ 56"
  by (subst binary64_small [of 56]) (simp_all add: tenth_def round_even_def)

lemma rounded_square: "binary64 (1 / 2 ^ 56 * (1 / 2 ^ 56)) = 1 / 2 ^ 112"
  by (subst binary64_small [of 112]) (simp_all add: round_even_def)

lemma rounded_first_square: "binary64 (1 / 2 ^ 112) = 1 / 2 ^ 112"
  by (subst binary64_small [of 112]) (simp_all add: round_even_def)

lemma rounded_two_squares: "binary64 (1 / 2 ^ 112 + 1 / 2 ^ 112) = 2 / 2 ^ 112"
  by (subst binary64_small [of 111]) (simp_all add: round_even_def)

lemma rounded_three_squares: "binary64 (2 / 2 ^ 112 + 1 / 2 ^ 112) = 3 / 2 ^ 112"
  by (subst binary64_small [of 111]) (simp_all add: round_even_def)

lemma rounded_variance: "binary64 (3 / 2 ^ 112 / 3) = 1 / 2 ^ 112"
  by (subst binary64_small [of 112]) (simp_all add: round_even_def)

lemma sqrt_112: "sqrt (1 / 2 ^ 112) = 1 / 2 ^ 56"
  by (rule real_sqrt_unique) (simp_all add: power_divide)

lemma rounded_root: "binary64 (1 / 2 ^ 56) = 1 / 2 ^ 56"
  by (subst binary64_small [of 56]) (simp_all add: round_even_def)

lemma float_sum_squares:
  "float_sum [1 / 2 ^ 112, 1 / 2 ^ 112, 1 / 2 ^ 112] = 3 / 2 ^ 112"
  unfolding float_sum_def foldl.simps add_0_left rounded_first_square rounded_two_squares rounded_three_squares ..

lemma float_std_tenths: "float_std [tenth, tenth, tenth] = 1 / 2 ^ 56"
proof -
  have len: "real (length [tenth, tenth, tenth]) = 3"
    by simp
  have sq: "map (\<lambda>x. binary64 (binary64 (7205759403792795 / 2 ^ 56 - x) *
                               binary64 (7205759403792795 / 2 ^ 56 - x)))
              [tenth, tenth, tenth] = [1 / 2 ^ 112, 1 / 2 ^ 112, 1 / 2 ^ 112]"
    unfolding list.map rounded_deviation rounded_square ..
  show ?thesis
    unfolding float_std_def Let_def len float_sum_tenths rounded_mean sq float_sum_squares rounded_variance sqrt_112 rounded_root ..
qed

lemma score_with_exact_std: "score_with_std pstd = compute_adjusted_sharpe"
  by (intro ext) (simp add: score_with_std_def compute_adjusted_sharpe_def)

lemma cube_root_of_cube:
  fixes x :: real
  assumes "0 < x"
  shows "(x * (x * x)) powr (1/3) = x"
proof -
  have "x * (x * x) = x powr 3"
    using assms by (simp add: power3_eq_cube mult.assoc)
  then have "(x * (x * x)) powr (1/3) = (x powr 3) powr (1/3)"
    by simp
  also have "\<dots> = x powr (3 * (1/3))"
    by (rule powr_powr)
  also have "\<dots> = x"
    using assms by simp
  finally show ?thesis .
qed

lemma merge_left_constant:
  "merge_left constant_solution (sub_rows worked_submission) =
     [join_row (row 0 tenth 0) (Num 1), join_row (row 1 tenth 0) (Num 1),
      join_row (row 2 tenth 0) (Num 1)]"
  by (simp add: constant_solution_def worked_submission_def numeric_submission_def merge_left_def
      merge_row_def matches_def row_def)

lemma constant_frame:
  "strategy_returns (merge_left constant_solution (sub_rows worked_submission)) = [tenth, tenth, tenth]"
  "map forward_returns (merge_left constant_solution (sub_rows worked_submission)) = [tenth, tenth, tenth]"
  "strategy_excess (merge_left constant_solution (sub_rows worked_submission)) = [tenth, tenth, tenth]"
  "market_excess (merge_left constant_solution (sub_rows worked_submission)) = [tenth, tenth, tenth]"
  unfolding merge_left_constant
  by (simp_all add: strategy_returns_def strategy_excess_def market_excess_def strategy_return_def
      position_def join_row_def row_def)

lemma validated_constant: "validated constant_solution worked_submission"
  unfolding validated_def merge_left_constant
  by (simp add: any_null_def out_of_bounds_iff join_row_def position_def worked_submission_def
      numeric_submission_def)

lemma mean_excess_of_tenths: "mean_excess_of [tenth, tenth, tenth] = tenth"
proof -
  have pos: "0 < 1 + tenth"
    by (simp add: tenth_def)
  have cum: "excess_cum [tenth, tenth, tenth] = (1 + tenth) * ((1 + tenth) * (1 + tenth))"
    by (simp add: excess_cum_def)
  have "0 < excess_cum [tenth, tenth, tenth]"
    unfolding cum using pos by simp
  then show ?thesis
    unfolding mean_excess_of_def using cube_root_of_cube [OF pos] cum by simp
qed

lemma score_with_std_validated:
  assumes "validated solution submission"
    and "df = merge_left solution (sub_rows submission)"
    and "df \<noteq> []"
  shows "score_with_std std solution submission =
     (if std (strategy_returns df) = 0 then Inl StrategyStdZero
      else if annualized_volatility (std (map forward_returns df)) = 0 then Inl MarketStdZero
      else Inr (capped (adjusted_sharpe
                  (sharpe_ratio (strategy_mean_excess df) (std (strategy_returns df)))
                  (vol_penalty (excess_vol (annualized_volatility (std (strategy_returns df)))
                     (annualized_volatility (std (map forward_returns df)))))
                  (frame_return_penalty df))))"
proof -
  have s: "mean_excess (strategy_excess df) (length df) = Inr (strategy_mean_excess df)"
    using mean_excess_nonempty [of "strategy_excess df"] assms(3)
    by (simp add: strategy_mean_excess_def strategy_excess_def)
  have m: "mean_excess (market_excess df) (length df) = Inr (market_mean_excess df)"
    using mean_excess_nonempty [of "market_excess df"] assms(3)
    by (simp add: market_mean_excess_def market_excess_def)
  show ?thesis
    using assms(1) s m
    unfolding score_with_std_def validated_def assms(2) [symmetric]
    by (simp add: Let_def frame_return_penalty_def)
qed

lemma huge_sharpe: "1000000 \<le> sharpe_ratio tenth (1 / 2 ^ 56)"
proof -
  have "1 \<le> sqrt 252"
    by (rule real_sqrt_ge_one) simp
  then have "1000000 \<le> 7205759403792794 * sqrt 252"
    by linarith
  moreover have "sharpe_ratio tenth (1 / 2 ^ 56) = 7205759403792794 * sqrt 252"
    by (simp add: sharpe_ratio_def tenth_def trading_days_per_yr_def)
  ultimately show ?thesis by simp
qed

text \<open>
  C6. On the constant series 0.1, 0.1, 0.1 (risk-free rate 0, predictions 1) the
  strategy returns and the forward returns are constant across all periods. With the
  exact standard deviation, which is zero, the function raises \<open>strategy std is zero\<close>.
  The standard deviation that pandas computes in binary64 is \<open>1 / 2 ^ 56\<close>: the sum of
  the three values rounds up, so the mean is one unit in the last place above 0.1. The test
  of line 112 compares that number with 0 and does not fire, nor does the test of line
  136, and the score is the cap 1000000.
\<close>

theorem constant_series_scored:
  "constant_series (strategy_returns (merge_left constant_solution (sub_rows worked_submission))) \<and>
   constant_series (map forward_returns (merge_left constant_solution (sub_rows worked_submission))) \<and>
   compute_adjusted_sharpe constant_solution worked_submission = Inl StrategyStdZero \<and>
   float_std (strategy_returns (merge_left constant_solution (sub_rows worked_submission))) = 1 / 2 ^ 56 \<and>
   score_with_std float_std constant_solution worked_submission = Inr 1000000"
proof -
  let ?df = "merge_left constant_solution (sub_rows worked_submission)"
  have ne: "?df \<noteq> []"
    unfolding merge_left_constant by simp
  have c: "constant_series [tenth, tenth, tenth]"
    by simp
  then have z: "pstd [tenth, tenth, tenth] = 0"
    using pstd_eq_0_iff [of "[tenth, tenth, tenth]"] by simp
  have exact: "compute_adjusted_sharpe constant_solution worked_submission = Inl StrategyStdZero"
    using score_validated [OF validated_constant refl ne] z
    by (simp add: strategy_std_def constant_frame)
  have me: "strategy_mean_excess ?df = tenth" "market_mean_excess ?df = tenth"
    by (simp_all add: strategy_mean_excess_def market_mean_excess_def constant_frame
        mean_excess_of_tenths)
  have nz: "annualized_volatility (1 / 2 ^ 56) \<noteq> 0"
    by (simp add: annualized_volatility_eq_0_iff)
  have vp: "vol_penalty (excess_vol (annualized_volatility (1 / 2 ^ 56))
              (annualized_volatility (1 / 2 ^ 56))) = 1"
    using nz by (simp add: excess_vol_def vol_penalty_def)
  have rp: "frame_return_penalty ?df = 1"
    by (simp add: frame_return_penalty_def me return_gap_def return_penalty_def)
  have "score_with_std float_std constant_solution worked_submission =
          Inr (capped (adjusted_sharpe (sharpe_ratio tenth (1 / 2 ^ 56)) 1 1))"
    using nz
    unfolding score_with_std_validated [OF validated_constant refl ne] constant_frame
      float_std_tenths me vp rp
    by simp
  then have float: "score_with_std float_std constant_solution worked_submission = Inr 1000000"
    using huge_sharpe by (simp add: capped_def adjusted_sharpe_def)
  show ?thesis
    using c exact float float_std_tenths by (simp add: constant_frame)
qed

subsection \<open>C1: the returned score and its cap\<close>

lemma score_le_cap:
  assumes "compute_adjusted_sharpe solution submission = Inr v"
  shows "v \<le> 1000000"
proof (cases "validated solution submission")
  case False
  then have "\<exists>e. compute_adjusted_sharpe solution submission = Inl e"
    using score_missing [of solution submission] score_invalid [of solution submission]
      score_out_of_bounds [of solution submission]
    unfolding validated_def by blast
  with assms show ?thesis by auto
next
  case True
  show ?thesis
  proof (cases "merge_left solution (sub_rows submission) = []")
    case True
    with \<open>validated solution submission\<close> assms show ?thesis
      using score_empty [of solution submission] by simp
  next
    case False
    with \<open>validated solution submission\<close> assms show ?thesis
      using score_validated [of solution submission "merge_left solution (sub_rows submission)"]
        capped_le
      by (auto split: if_splits)
  qed
qed

lemma not_constant_pair: "a \<noteq> b \<Longrightarrow> \<not> constant_series [a, b]"
  by (auto simp: constant_series_iff)

text \<open>
  C1, as amended. When the joined frame has at least one row, the three validation
  checks pass, the standard deviation of the strategy returns is not zero and the
  annualized volatility of the market is not zero, the function returns
  \<open>min (strategy_sharpe / (vol_penalty * return_penalty)) 1000000\<close>. For every input, a
  returned score is at most 1,000,000. (An empty solution fails none of the checks, its
  columns being empty, but line 102 raises \<open>ZeroDivisionError\<close> and no score is
  returned.)
\<close>

theorem score_formula_and_cap:
  assumes "df = merge_left solution (sub_rows submission)"
  shows "(validated solution submission \<and> df \<noteq> [] \<and> strategy_std df \<noteq> 0 \<and>
          market_volatility df \<noteq> 0 \<longrightarrow>
            compute_adjusted_sharpe solution submission =
              Inr (min (strategy_sharpe df / (frame_vol_penalty df * frame_return_penalty df))
                     1000000)) \<and>
         (\<forall>v. compute_adjusted_sharpe solution submission = Inr v \<longrightarrow> v \<le> 1000000)"
  using score_validated [of solution submission df] assms score_le_cap [of solution submission]
  by (simp add: capped_def adjusted_sharpe_def)

theorem score_formula_and_cap_witness:
  "compute_adjusted_sharpe [row 1 (1/100) 0, row 2 (-2/100) 0]
       (numeric_submission [(1, 1/2), (2, 3/2)]) =
     Inr (min (strategy_sharpe (merge_left [row 1 (1/100) 0, row 2 (-2/100) 0]
                   (sub_rows (numeric_submission [(1, 1/2), (2, 3/2)]))) /
               (frame_vol_penalty (merge_left [row 1 (1/100) 0, row 2 (-2/100) 0]
                   (sub_rows (numeric_submission [(1, 1/2), (2, 3/2)]))) *
                frame_return_penalty (merge_left [row 1 (1/100) 0, row 2 (-2/100) 0]
                   (sub_rows (numeric_submission [(1, 1/2), (2, 3/2)]))))) 1000000)"
proof -
  let ?df = "merge_left [row 1 (1/100) 0, row 2 (-2/100) 0]
               (sub_rows (numeric_submission [(1, 1/2), (2, 3/2)]))"
  have v: "validated [row 1 (1/100) 0, row 2 (-2/100) 0] (numeric_submission [(1, 1/2), (2, 3/2)])"
    by (rule validated_two_rows) simp_all
  have ne: "?df \<noteq> []"
    unfolding merge_left_two_rows by simp
  have "\<not> constant_series (strategy_returns ?df)"
    unfolding merge_left_two_rows
    by (simp add: strategy_returns_def strategy_return_def position_def join_row_def row_def
        not_constant_pair)
  then have s: "strategy_std ?df \<noteq> 0"
    using ne pstd_eq_0_iff [of "strategy_returns ?df"]
    by (simp add: strategy_std_def strategy_returns_def)
  have "\<not> constant_series (map forward_returns ?df)"
    unfolding merge_left_two_rows
    by (simp add: join_row_def row_def not_constant_pair)
  then have m: "market_volatility ?df \<noteq> 0"
    using ne pstd_eq_0_iff [of "map forward_returns ?df"]
    by (simp add: market_volatility_def market_std_def annualized_volatility_eq_0_iff)
  show ?thesis
    using score_formula_and_cap [OF refl, of "[row 1 (1/100) 0, row 2 (-2/100) 0]"
        "numeric_submission [(1, 1/2), (2, 3/2)]"] v ne s m
    by blast
qed

theorem score_formula_counterexample:
  "validated [] (numeric_submission [(1, 1)]) \<and>
   compute_adjusted_sharpe [] (numeric_submission [(1, 1)]) = Inl ZeroDivisionError \<and>
   \<not> is_ZeroVolatilityError ZeroDivisionError"
proof -
  have v: "validated [] (numeric_submission [(1, 1)])"
    by (simp add: validated_def merge_left_def any_null_def out_of_bounds_iff
        numeric_submission_def)
  then show ?thesis
    using score_empty [of "[]" "numeric_submission [(1, 1)]"]
    by (simp add: merge_left_def is_ZeroVolatilityError_def)
qed

subsection \<open>C3: fully invested\<close>

lemma fully_invested_returns:
  assumes "\<forall>r \<in> set df. prediction r = Num 1"
  shows "strategy_returns df = map forward_returns df"
    and "strategy_excess df = market_excess df"
  using assms
  by (simp_all add: strategy_returns_def strategy_excess_def market_excess_def
      strategy_return_def position_def)

lemma not_constant_series:
  assumes "r \<in> set df" and "r' \<in> set df" and "f r \<noteq> f r'"
  shows "\<not> constant_series (map f df)"
proof
  assume "constant_series (map f df)"
  then obtain c where "set (map f df) = {c}"
    unfolding constant_series_iff by blast
  then have "f ` set df = {c}"
    by simp
  with assms(1,2) have "f r = c" and "f r' = c"
    by blast+
  with assms(3) show False by simp
qed

lemma fully_invested_score:
  assumes "df = merge_left solution (sub_rows submission)"
    and "number_dtype submission"
    and "\<forall>r \<in> set df. prediction r = Num 1"
    and "r \<in> set df" and "r' \<in> set df" and "forward_returns r \<noteq> forward_returns r'"
  shows "strategy_returns df = map forward_returns df"
    and "frame_vol_penalty df = 1"
    and "frame_return_penalty df = 1"
    and "compute_adjusted_sharpe solution submission = Inr (min (market_sharpe df) 1000000)"
proof -
  show sr: "strategy_returns df = map forward_returns df"
    using assms(3) by (rule fully_invested_returns)
  have se: "strategy_excess df = market_excess df"
    using assms(3) by (rule fully_invested_returns)
  have ne: "df \<noteq> []"
    using assms(4) by auto
  have "\<not> constant_series (map forward_returns df)"
    using assms(4,5,6) by (rule not_constant_series)
  then have ms: "market_std df \<noteq> 0"
    using ne pstd_eq_0_iff [of "map forward_returns df"] by (simp add: market_std_def)
  then have mv: "market_volatility df \<noteq> 0"
    by (simp add: market_volatility_def annualized_volatility_eq_0_iff)
  have std: "strategy_std df = market_std df"
    by (simp add: strategy_std_def market_std_def sr)
  have vol: "strategy_volatility df = market_volatility df"
    by (simp add: strategy_volatility_def market_volatility_def std)
  have me: "strategy_mean_excess df = market_mean_excess df"
    by (simp add: strategy_mean_excess_def market_mean_excess_def se)
  show vp: "frame_vol_penalty df = 1"
    using mv by (simp add: frame_vol_penalty_def vol excess_vol_def vol_penalty_def)
  show rp: "frame_return_penalty df = 1"
    by (simp add: frame_return_penalty_def me return_gap_def return_penalty_def)
  have sh: "strategy_sharpe df = market_sharpe df"
    by (simp add: strategy_sharpe_def market_sharpe_def me std)
  have "\<not> any_null df"
    using assms(3) by (simp add: any_null_def)
  moreover have "\<not> out_of_bounds df"
    using assms(3) by (simp add: out_of_bounds_iff position_def)
  ultimately have v: "validated solution submission"
    using assms(1,2) by (simp add: validated_def)
  show "compute_adjusted_sharpe solution submission = Inr (min (market_sharpe df) 1000000)"
    using score_validated [OF v assms(1) ne] ms mv
    by (simp add: std vp rp sh capped_def adjusted_sharpe_def)
qed

lemma merge_left_worked:
  "merge_left worked_solution (sub_rows worked_submission) =
     [join_row (row 0 (1/100) (1/10000)) (Num 1), join_row (row 1 (-2/100) (1/10000)) (Num 1),
      join_row (row 2 (15/1000) (1/10000)) (Num 1)]"
  by (simp add: worked_solution_def worked_submission_def numeric_submission_def merge_left_def
      merge_row_def matches_def row_def)

lemma sqrt_252_le: "sqrt 252 \<le> 16"
  by (rule real_le_lsqrt) simp_all

lemma sharpe_ratio_le:
  assumes "0 \<le> m" and "m \<le> 1" and "1/100 \<le> s"
  shows "sharpe_ratio m s \<le> 1600"
proof -
  have "m / s \<le> 1 / (1/100)"
    using assms by (intro frac_le) simp_all
  then have a: "m / s \<le> 100" by simp
  have b: "0 \<le> m / s"
    using assms by simp
  have "m / s * sqrt 252 \<le> 100 * 16"
    using a b sqrt_252_le by (intro mult_mono) simp_all
  then show ?thesis
    by (simp add: sharpe_ratio_def trading_days_per_yr_def)
qed

lemma worked_market_std:
  "1/100 \<le> pstd [1/100, -2/100, 15/1000]"
proof -
  have "pstd [1/100, -2/100, 15/1000] = sqrt (43/180000)"
    by (simp add: pstd_def mean_def power2_eq_square)
  moreover have "1/100 \<le> sqrt (43/180000)"
    by (rule real_le_rsqrt) (simp add: power2_eq_square)
  ultimately show ?thesis by simp
qed

lemma mean_excess_of_bounds:
  assumes "1 \<le> excess_cum xs" and "excess_cum xs \<le> 2" and "xs \<noteq> []"
  shows "0 \<le> mean_excess_of xs" and "mean_excess_of xs \<le> 1"
proof -
  let ?a = "1 / real (length xs)"
  have a: "0 \<le> ?a" "?a \<le> 1"
    using assms(3) by (simp_all add: Suc_leI)
  have "1 \<le> excess_cum xs powr ?a"
    using assms(1) a(1) by (rule ge_one_powr_ge_zero)
  moreover have "excess_cum xs powr ?a \<le> excess_cum xs powr 1"
    using a(2) assms(1) by (rule powr_mono)
  moreover have "excess_cum xs powr 1 = excess_cum xs"
    using assms(1) by simp
  ultimately show "0 \<le> mean_excess_of xs" and "mean_excess_of xs \<le> 1"
    using assms(1,2) by (simp_all add: mean_excess_of_def)
qed

lemma worked_example_score:
  "compute_adjusted_sharpe worked_solution worked_submission =
     Inr (market_sharpe (merge_left worked_solution (sub_rows worked_submission)))"
proof -
  let ?df = "merge_left worked_solution (sub_rows worked_submission)"
  have p: "\<forall>r \<in> set ?df. prediction r = Num 1"
    unfolding merge_left_worked by (simp add: join_row_def)
  have r: "join_row (row 0 (1/100) (1/10000)) (Num 1) \<in> set ?df"
    "join_row (row 1 (-2/100) (1/10000)) (Num 1) \<in> set ?df"
    unfolding merge_left_worked by simp_all
  have d: "forward_returns (join_row (row 0 (1/100) (1/10000)) (Num 1)) \<noteq>
           forward_returns (join_row (row 1 (-2/100) (1/10000)) (Num 1))"
    by (simp add: join_row_def row_def)
  have n: "number_dtype worked_submission"
    by (simp add: worked_submission_def numeric_submission_def)
  have sc: "compute_adjusted_sharpe worked_solution worked_submission =
              Inr (min (market_sharpe ?df) 1000000)"
    using fully_invested_score(4) [OF refl n p r d] .
  have ex: "market_excess ?df = [99/10000, -201/10000, 149/10000]"
    unfolding merge_left_worked by (simp add: market_excess_def join_row_def row_def)
  have cum: "1 \<le> excess_cum (market_excess ?df)" "excess_cum (market_excess ?df) \<le> 2"
    unfolding ex by (simp_all add: excess_cum_def)
  have m: "0 \<le> market_mean_excess ?df" "market_mean_excess ?df \<le> 1"
    using mean_excess_of_bounds [OF cum] ex by (simp_all add: market_mean_excess_def)
  have "map forward_returns ?df = [1/100, -2/100, 15/1000]"
    unfolding merge_left_worked by (simp add: join_row_def row_def)
  then have s: "1/100 \<le> market_std ?df"
    using worked_market_std by (simp add: market_std_def)
  have "market_sharpe ?df \<le> 1600"
    unfolding market_sharpe_def using m s by (rule sharpe_ratio_le)
  then show ?thesis
    using sc by simp
qed

lemma pstd_near_pair: "pstd [1, 1 + 1/1000000] = 1/2000000"
  unfolding pstd_def
  by (rule real_sqrt_unique) (simp_all add: mean_def power2_eq_square)

text \<open>
  C3, as amended. When every joined prediction is 1 (in a column of numeric dtype) and
  the forward returns take at least two different values, the strategy returns are the
  forward returns, both penalties are 1, and the score is the annualized Sharpe ratio of
  the market capped at 1,000,000. For the worked example of three periods (forward
  returns 0.01, -0.02, 0.015, risk-free rate 0.0001, predictions 1) the Sharpe ratio of
  the market is below the cap and the score is equal to it. (A market Sharpe ratio above
  1,000,000 is returned as 1,000,000.)
\<close>

theorem fully_invested:
  "(df = merge_left solution (sub_rows submission) \<and> number_dtype submission \<and>
    (\<forall>r \<in> set df. prediction r = Num 1) \<and>
    (\<exists>r \<in> set df. \<exists>r' \<in> set df. forward_returns r \<noteq> forward_returns r') \<longrightarrow>
      strategy_returns df = map forward_returns df \<and>
      frame_vol_penalty df = 1 \<and> frame_return_penalty df = 1 \<and>
      compute_adjusted_sharpe solution submission = Inr (min (market_sharpe df) 1000000)) \<and>
   strategy_returns (merge_left worked_solution (sub_rows worked_submission)) =
     [1/100, -2/100, 15/1000] \<and>
   frame_vol_penalty (merge_left worked_solution (sub_rows worked_submission)) = 1 \<and>
   frame_return_penalty (merge_left worked_solution (sub_rows worked_submission)) = 1 \<and>
   compute_adjusted_sharpe worked_solution worked_submission =
     Inr (market_sharpe (merge_left worked_solution (sub_rows worked_submission)))"
proof -
  let ?w = "merge_left worked_solution (sub_rows worked_submission)"
  have p: "\<forall>r \<in> set ?w. prediction r = Num 1"
    unfolding merge_left_worked by (simp add: join_row_def)
  have r: "join_row (row 0 (1/100) (1/10000)) (Num 1) \<in> set ?w"
    "join_row (row 1 (-2/100) (1/10000)) (Num 1) \<in> set ?w"
    unfolding merge_left_worked by simp_all
  have d: "forward_returns (join_row (row 0 (1/100) (1/10000)) (Num 1)) \<noteq>
           forward_returns (join_row (row 1 (-2/100) (1/10000)) (Num 1))"
    by (simp add: join_row_def row_def)
  have n: "number_dtype worked_submission"
    by (simp add: worked_submission_def numeric_submission_def)
  note w = fully_invested_score [OF refl n p r d]
  have fr: "map forward_returns ?w = [1/100, -2/100, 15/1000]"
    unfolding merge_left_worked by (simp add: join_row_def row_def)
  have general: "strategy_returns df = map forward_returns df \<and>
      frame_vol_penalty df = 1 \<and> frame_return_penalty df = 1 \<and>
      compute_adjusted_sharpe solution submission = Inr (min (market_sharpe df) 1000000)"
    if "df = merge_left solution (sub_rows submission)" "number_dtype submission"
      "\<forall>r \<in> set df. prediction r = Num 1"
      "\<exists>r \<in> set df. \<exists>r' \<in> set df. forward_returns r \<noteq> forward_returns r'"
  proof -
    from that(4) obtain r r' where "r \<in> set df" "r' \<in> set df"
      "forward_returns r \<noteq> forward_returns r'"
      by blast
    from fully_invested_score [OF that(1,2,3) this] show ?thesis
      by blast
  qed
  show ?thesis
    using general w(1,2,3) fr worked_example_score by metis
qed

theorem fully_invested_witness:
  "strategy_returns (merge_left [row 1 (1/100) 0, row 2 (-2/100) 0]
      (sub_rows (numeric_submission [(1, 1), (2, 1)]))) = [1/100, -2/100] \<and>
   compute_adjusted_sharpe [row 1 (1/100) 0, row 2 (-2/100) 0]
      (numeric_submission [(1, 1), (2, 1)]) =
     Inr (min (market_sharpe (merge_left [row 1 (1/100) 0, row 2 (-2/100) 0]
      (sub_rows (numeric_submission [(1, 1), (2, 1)])))) 1000000)"
proof -
  let ?df = "merge_left [row 1 (1/100) 0, row 2 (-2/100) 0]
      (sub_rows (numeric_submission [(1, 1), (2, 1)]))"
  have a: "join_row (row 1 (1/100) 0) (Num 1) \<in> set ?df"
    and b: "join_row (row 2 (-2/100) 0) (Num 1) \<in> set ?df"
    unfolding merge_left_two_rows by simp_all
  have "forward_returns (join_row (row 1 (1/100) 0) (Num 1)) \<noteq>
        forward_returns (join_row (row 2 (-2/100) 0) (Num 1))"
    by (simp add: join_row_def row_def)
  with a b have e: "\<exists>r \<in> set ?df. \<exists>r' \<in> set ?df. forward_returns r \<noteq> forward_returns r'"
    by blast
  have p: "\<forall>r \<in> set ?df. prediction r = Num 1"
    unfolding merge_left_two_rows by (simp add: join_row_def)
  have n: "number_dtype (numeric_submission [(1, 1), (2, 1)])"
    by (simp add: numeric_submission_def)
  have fr: "map forward_returns ?df = [1/100, -2/100]"
    unfolding merge_left_two_rows by (simp add: join_row_def row_def)
  from fully_invested [of ?df "[row 1 (1/100) 0, row 2 (-2/100) 0]"
      "numeric_submission [(1, 1), (2, 1)]"] n p e
  have "strategy_returns ?df = map forward_returns ?df \<and>
      compute_adjusted_sharpe [row 1 (1/100) 0, row 2 (-2/100) 0]
        (numeric_submission [(1, 1), (2, 1)]) = Inr (min (market_sharpe ?df) 1000000)"
    by blast
  with fr show ?thesis by simp
qed

theorem fully_invested_counterexample:
  "compute_adjusted_sharpe [row 1 1 0, row 2 (1 + 1/1000000) (1/1000000)]
      (numeric_submission [(1, 1), (2, 1)]) = Inr 1000000 \<and>
   1000000 < market_sharpe (merge_left [row 1 1 0, row 2 (1 + 1/1000000) (1/1000000)]
      (sub_rows (numeric_submission [(1, 1), (2, 1)])))"
proof -
  let ?df = "merge_left [row 1 1 0, row 2 (1 + 1/1000000) (1/1000000)]
      (sub_rows (numeric_submission [(1, 1), (2, 1)]))"
  have n: "number_dtype (numeric_submission [(1, 1), (2, 1)])"
    by (simp add: numeric_submission_def)
  have p: "\<forall>r \<in> set ?df. prediction r = Num 1"
    unfolding merge_left_two_rows by (simp add: join_row_def)
  have r: "join_row (row 1 1 0) (Num 1) \<in> set ?df"
    "join_row (row 2 (1 + 1/1000000) (1/1000000)) (Num 1) \<in> set ?df"
    unfolding merge_left_two_rows by simp_all
  have d: "forward_returns (join_row (row 1 1 0) (Num 1)) \<noteq>
           forward_returns (join_row (row 2 (1 + 1/1000000) (1/1000000)) (Num 1))"
    by (simp add: join_row_def row_def)
  have sc: "compute_adjusted_sharpe [row 1 1 0, row 2 (1 + 1/1000000) (1/1000000)]
      (numeric_submission [(1, 1), (2, 1)]) = Inr (min (market_sharpe ?df) 1000000)"
    using fully_invested_score(4) [OF refl n p r d] .
  have ex: "market_excess ?df = [1, 1]"
    unfolding merge_left_two_rows by (simp add: market_excess_def join_row_def row_def)
  have "(4::real) powr (1/2) = 2"
    using powr_half_sqrt [of "4::real"] by simp
  then have me: "market_mean_excess ?df = 1"
    unfolding market_mean_excess_def ex
    by (simp add: mean_excess_of_def excess_cum_def)
  have "map forward_returns ?df = [1, 1 + 1/1000000]"
    unfolding merge_left_two_rows by (simp add: join_row_def row_def)
  then have sd: "market_std ?df = 1/2000000"
    unfolding market_std_def using pstd_near_pair by simp
  have "1 \<le> sqrt 252"
    by (rule real_sqrt_ge_one) simp
  then have "1000000 < 2000000 * sqrt 252"
    by linarith
  then have big: "1000000 < market_sharpe ?df"
    unfolding market_sharpe_def me sd
    by (simp add: sharpe_ratio_def trading_days_per_yr_def)
  with sc show ?thesis by simp
qed

end
